theory Spec2Isabelle
  imports Main "HOL-Library.AList" "HOL-Library.Product_Lexorder"
begin

section \<open>JavaScript strings and values\<close>

text \<open>
  A JavaScript string is a sequence of UTF-16 code units; it is modelled as the list of
  those code units (natural numbers). \<open>js\<close> embeds an ASCII literal of the source.
\<close>

type_synonym jsstring = "nat list"

definition js :: "string \<Rightarrow> jsstring" where
  "js s = map of_char s"

text \<open>
  The values that \<open>response.json()\<close> can produce, and \<open>undefined\<close>. Numbers are
  modelled as mathematical integers: fractions, \<open>NaN\<close> inside a JSON value and the rounding
  of magnitudes above \<open>2^53\<close> are outside the model. An object is the association list of
  its own properties; the first binding of a key is the property.
\<close>

datatype jsval =
    JUndefined
  | JNull
  | JBool bool
  | JNum int
  | JStr jsstring
  | JArr "jsval list"
  | JObj "(jsstring \<times> jsval) list"

datatype thrown = Error jsstring | TypeError jsstring | SyntaxError jsstring

fun message :: "thrown \<Rightarrow> jsstring" where
  "message (Error m) = m"
| "message (TypeError m) = m"
| "message (SyntaxError m) = m"

text \<open>
  What the script takes from the engine and the locale: \<open>Date.prototype.toLocaleString\<close>
  (applied to \<open>new Date(v)\<close>), \<open>String.prototype.toUpperCase\<close>, the message of the
  \<open>TypeError\<close> raised when property \<open>k\<close> of \<open>v\<close> cannot be read or called, and
  \<open>new Date().toISOString()\<close>.
\<close>

record env =
  toLocaleString :: "jsval \<Rightarrow> jsstring"
  toUpperCase :: "jsstring \<Rightarrow> jsstring"
  typeErrorMessage :: "jsval \<Rightarrow> jsstring \<Rightarrow> jsstring"
  nowISOString :: jsstring

fun truthy :: "jsval \<Rightarrow> bool" where
  "truthy JUndefined = False"
| "truthy JNull = False"
| "truthy (JBool b) = b"
| "truthy (JNum n) = (n \<noteq> 0)"
| "truthy (JStr s) = (s \<noteq> [])"
| "truthy (JArr xs) = True"
| "truthy (JObj kvs) = True"

fun nullish :: "jsval \<Rightarrow> bool" where
  "nullish JUndefined = True"
| "nullish JNull = True"
| "nullish v = False"

text \<open>\<open>a || b\<close>\<close>

definition js_or :: "jsval \<Rightarrow> jsval \<Rightarrow> jsval" where
  "js_or a b = (if truthy a then a else b)"

text \<open>
  \<open>v.k\<close> for the property names the script reads (none of them is a built-in property of
  strings, numbers, booleans or arrays): a \<open>TypeError\<close> on \<open>null\<close> and \<open>undefined\<close>,
  the own property of an object, \<open>undefined\<close> otherwise.
\<close>

fun lookup :: "jsval \<Rightarrow> jsstring \<Rightarrow> jsval" where
  "lookup (JObj kvs) k = (case map_of kvs k of None \<Rightarrow> JUndefined | Some v \<Rightarrow> v)"
| "lookup v k = JUndefined"

definition get_prop :: "env \<Rightarrow> jsval \<Rightarrow> jsstring \<Rightarrow> thrown + jsval" where
  "get_prop e v k = (if nullish v then Inl (TypeError (typeErrorMessage e v k)) else Inr (lookup v k))"

text \<open>\<open>v?.k\<close>\<close>

definition get_prop_opt :: "jsval \<Rightarrow> jsstring \<Rightarrow> jsval" where
  "get_prop_opt v k = (if nullish v then JUndefined else lookup v k)"


fun digits :: "nat \<Rightarrow> jsstring" where
  "digits n = (if n < 10 then [48 + n] else digits (n div 10) @ [48 + n mod 10])"

definition number_to_string :: "int \<Rightarrow> jsstring" where
  "number_to_string n = (if n < 0 then 45 # digits (nat (- n)) else digits (nat n))"

text \<open>\<open>Array.prototype.join\<close> on an array of strings.\<close>

fun js_join :: "jsstring \<Rightarrow> jsstring list \<Rightarrow> jsstring" where
  "js_join sep [] = []"
| "js_join sep [x] = x"
| "js_join sep (x # y # ys) = x @ sep @ js_join sep (y # ys)"

text \<open>\<open>String(v)\<close>, also the conversion of \<open>${v}\<close> in a template literal.\<close>

fun to_string :: "jsval \<Rightarrow> jsstring" where
  "to_string JUndefined = js ''undefined''"
| "to_string JNull = js ''null''"
| "to_string (JBool b) = (if b then js ''true'' else js ''false'')"
| "to_string (JNum n) = number_to_string n"
| "to_string (JStr s) = s"
| "to_string (JArr xs) = js_join (js '','') (map (\<lambda>v. if nullish v then [] else to_string v) xs)"
| "to_string (JObj kvs) = js ''[object Object]''"

text \<open>\<open>a === b\<close> where \<open>b\<close> is a string.\<close>

definition strict_eq_str :: "jsval \<Rightarrow> jsstring \<Rightarrow> bool" where
  "strict_eq_str a s = (a = JStr s)"

text \<open>\<open>s.includes(p)\<close>\<close>

fun starts_with :: "jsstring \<Rightarrow> jsstring \<Rightarrow> bool" where
  "starts_with [] s = True"
| "starts_with (p # ps) [] = False"
| "starts_with (p # ps) (c # cs) = (p = c \<and> starts_with ps cs)"

fun js_includes :: "jsstring \<Rightarrow> jsstring \<Rightarrow> bool" where
  "js_includes [] p = (p = [])"
| "js_includes (c # cs) p = (starts_with p (c # cs) \<or> js_includes cs p)"

text \<open>\<open>s.trim()\<close>: white space and line terminators of ECMAScript.\<close>

definition is_js_whitespace :: "nat \<Rightarrow> bool" where
  "is_js_whitespace c =
     (c \<in> {9, 10, 11, 12, 13, 32, 160, 5760, 8232, 8233, 8239, 8287, 12288, 65279}
      \<or> (8192 \<le> c \<and> c \<le> 8202))"


text \<open>
  \<open>parseInt(s)\<close> with no radix: leading white space is skipped, a sign is read, a
  \<open>0x\<close> prefix selects radix 16, the longest prefix of digits is the value, and no digit
  at all gives \<open>NaN\<close> (\<open>None\<close>).
\<close>

definition is_radix_digit :: "nat \<Rightarrow> nat \<Rightarrow> bool" where
  "is_radix_digit R c =
     ((48 \<le> c \<and> c \<le> 57 \<and> c - 48 < R)
      \<or> (97 \<le> c \<and> c \<le> 122 \<and> c - 87 < R)
      \<or> (65 \<le> c \<and> c \<le> 90 \<and> c - 55 < R))"

definition digit_value :: "nat \<Rightarrow> nat" where
  "digit_value c = (if c \<le> 57 then c - 48 else if 97 \<le> c then c - 87 else c - 55)"

definition js_parseInt :: "jsstring \<Rightarrow> int option" where
  "js_parseInt inputString =
     (let S = dropWhile is_js_whitespace inputString;
          sign = (if S \<noteq> [] \<and> hd S = 45 then - 1 else 1 :: int);
          S1 = (if S \<noteq> [] \<and> (hd S = 43 \<or> hd S = 45) then tl S else S);
          hex = (take 2 S1 = js ''0x'' \<or> take 2 S1 = js ''0X'');
          S2 = (if hex then drop 2 S1 else S1);
          R = (if hex then 16 else 10 :: nat);
          Z = takeWhile (is_radix_digit R) S2
      in if Z = [] then None
         else Some (sign * int (foldl (\<lambda>a c. a * R + digit_value c) 0 Z)))"

section \<open>The page and the server\<close>

text \<open>
  A request as \<open>fetch\<close> receives it. \<open>json_body\<close> is the value whose
  \<open>JSON.stringify\<close> is the request body.
\<close>

record request =
  url :: jsstring
  http_method :: "jsstring option"
  headers :: "(jsstring \<times> jsstring) list"
  json_body :: "jsval option"

record options =
  opt_method :: "jsstring option"
  opt_body :: "jsval option"

text \<open>
  The outcome of \<open>fetch\<close>: the promise rejects, or a response with its HTTP status and
  the outcome of \<open>response.json()\<close>. \<open>response.ok\<close> is true for a status from 200 to 299.
\<close>

datatype fetch_result = Rejects thrown | Response nat "thrown + jsval"

definition response_ok :: "nat \<Rightarrow> bool" where
  "response_ok status = (200 \<le> status \<and> status \<le> 299)"

datatype task = LoadHistory | LoadRecentCommands | LoadRules | LoadUsers

text \<open>
  The state of the script and of the elements it touches. \<open>fetched\<close> is the log of the
  requests passed to \<open>fetch\<close>, \<open>toasts\<close> the log of \<open>showToast\<close> calls (message, type),
  \<open>spawned\<close> the async functions called without \<open>await\<close>, in call order, and
  \<open>downloads\<close> the files offered by the export (name, content), \<open>unhandled\<close> the
  errors that escape an async function. \<open>history_filter\<close> is \<open>None\<close> when the page has
  no such element.
\<close>

record ui =
  currentUser :: jsval
  apiKey :: jsstring
  fetched :: "request list"
  toasts :: "(jsstring \<times> jsstring) list"
  spawned :: "task list"
  downloads :: "(jsstring \<times> jsstring) list"
  command_input :: jsstring
  submit_btn_html :: jsstring
  submit_btn_disabled :: bool
  credit_display :: jsstring
  command_result :: jsstring
  recent_commands :: jsstring
  history_filter :: "jsstring option"
  history_table :: jsstring
  rule_pattern :: jsstring
  rule_action :: jsstring
  rule_priority :: jsstring
  new_username :: jsstring
  new_user_role :: jsstring
  new_user_credits :: jsstring
  new_api_key :: jsstring
  new_api_key_display_hidden :: bool
  audit_table :: jsstring
  unhandled :: "thrown list"

definition API_BASE_URL :: jsstring where
  "API_BASE_URL = js ''http://localhost:8000''"

text \<open>
  \<open>apiRequest(endpoint, options)\<close>. \<open>request_of\<close> is the request that the function
  builds and passes to \<open>fetch\<close> (no caller passes \<open>options.headers\<close>);
  \<open>apiRequest_try\<close> is the \<open>try\<close> block given the outcome of that \<open>fetch\<close>,
  \<open>apiRequest_result\<close> adds the \<open>catch\<close> block.
\<close>

definition request_of :: "ui \<Rightarrow> jsstring \<Rightarrow> options \<Rightarrow> request" where
  "request_of u endpoint opts =
     \<lparr>url = API_BASE_URL @ endpoint,
      http_method = opt_method opts,
      headers = [(js ''Content-Type'', js ''application/json'')]
                @ (if apiKey u \<noteq> [] then [(js ''X-API-Key'', apiKey u)] else []),
      json_body = opt_body opts\<rparr>"

definition apiRequest_try :: "env \<Rightarrow> fetch_result \<Rightarrow> thrown + jsval" where
  "apiRequest_try e res =
     (case res of
        Rejects err \<Rightarrow> Inl err
      | Response status parsed \<Rightarrow>
          (case parsed of
             Inl err \<Rightarrow> Inl err
           | Inr data \<Rightarrow>
               if \<not> response_ok status then
                 (case get_prop e data (js ''detail'') of
                    Inl err \<Rightarrow> Inl err
                  | Inr detail \<Rightarrow>
                      Inl (Error (to_string
                        (js_or detail (JStr (js ''HTTP error '' @ digits status))))))
               else Inr data))"

definition apiRequest_result :: "env \<Rightarrow> fetch_result \<Rightarrow> thrown + jsval" where
  "apiRequest_result e res =
     (case apiRequest_try e res of
        Inl error \<Rightarrow>
          if js_includes (message error) (js ''Failed to fetch'')
          then Inl (Error (js ''Cannot connect to server. Make sure the backend is running on port 8000.''))
          else Inl error
      | Inr data \<Rightarrow> Inr data)"

definition apiRequest :: "env \<Rightarrow> jsstring \<Rightarrow> options \<Rightarrow> fetch_result \<Rightarrow> ui \<Rightarrow> (thrown + jsval) \<times> ui" where
  "apiRequest e endpoint opts res u =
     (apiRequest_result e res, u\<lparr>fetched := fetched u @ [request_of u endpoint opts]\<rparr>)"

definition showToast :: "jsstring \<Rightarrow> jsstring \<Rightarrow> ui \<Rightarrow> ui" where
  "showToast msg type u = u\<lparr>toasts := toasts u @ [(msg, type)]\<rparr>"

section \<open>Utilities\<close>

text \<open>
  Assigning \<open>v\<close> to \<open>textContent\<close>: \<open>null\<close> and \<open>undefined\<close> give the empty string,
  anything else its string conversion.
\<close>

definition dom_text :: "jsval \<Rightarrow> jsstring" where
  "dom_text v = (if nullish v then [] else to_string v)"

text \<open>
  Reading \<open>innerHTML\<close> of an element whose only child is a text node: the HTML
  serialisation escapes \<open>&\<close>, the no-break space, \<open><\<close> and \<open>>\<close>.
\<close>

fun html_escape :: "jsstring \<Rightarrow> jsstring" where
  "html_escape [] = []"
| "html_escape (c # cs) =
     (if c = 38 then js ''&amp;''
      else if c = 160 then js ''&nbsp;''
      else if c = 60 then js ''&lt;''
      else if c = 62 then js ''&gt;''
      else [c]) @ html_escape cs"

definition escapeHtml :: "jsval \<Rightarrow> jsstring" where
  "escapeHtml text = (if \<not> truthy text then [] else html_escape (dom_text text))"

definition formatDate :: "env \<Rightarrow> jsval \<Rightarrow> jsstring" where
  "formatDate e isoString = (if \<not> truthy isoString then js ''-'' else toLocaleString e isoString)"

text \<open>Sequencing of steps that may throw.\<close>

definition and_then :: "thrown + 'a \<Rightarrow> ('a \<Rightarrow> thrown + 'b) \<Rightarrow> thrown + 'b" where
  "and_then r f = (case r of Inl err \<Rightarrow> Inl err | Inr x \<Rightarrow> f x)"

text \<open>\<open>xs.map(f)\<close> and \<open>xs.filter(f)\<close> with a callback that may throw.\<close>

fun map_throw :: "('a \<Rightarrow> thrown + 'b) \<Rightarrow> 'a list \<Rightarrow> thrown + 'b list" where
  "map_throw f [] = Inr []"
| "map_throw f (x # xs) =
     (case f x of
        Inl err \<Rightarrow> Inl err
      | Inr y \<Rightarrow> (case map_throw f xs of Inl err \<Rightarrow> Inl err | Inr ys \<Rightarrow> Inr (y # ys)))"

fun filter_throw :: "('a \<Rightarrow> thrown + bool) \<Rightarrow> 'a list \<Rightarrow> thrown + 'a list" where
  "filter_throw f [] = Inr []"
| "filter_throw f (x # xs) =
     (case f x of
        Inl err \<Rightarrow> Inl err
      | Inr b \<Rightarrow>
          (case filter_throw f xs of
             Inl err \<Rightarrow> Inl err
           | Inr ys \<Rightarrow> Inr (if b then x # ys else ys)))"

text \<open>
  \<open>v.length\<close>, and the receiver check of \<open>v.map(...)\<close> and \<open>v.filter(...)\<close>: among
  the values of the model only an array has these methods.
\<close>

definition js_length :: "env \<Rightarrow> jsval \<Rightarrow> thrown + jsval" where
  "js_length e v =
     (case v of
        JArr xs \<Rightarrow> Inr (JNum (int (length xs)))
      | JStr s \<Rightarrow> Inr (JNum (int (length s)))
      | _ \<Rightarrow> get_prop e v (js ''length''))"

definition array_method :: "env \<Rightarrow> jsval \<Rightarrow> jsstring \<Rightarrow> thrown + jsval list" where
  "array_method e v name =
     (case v of JArr xs \<Rightarrow> Inr xs | _ \<Rightarrow> Inl (TypeError (typeErrorMessage e v name)))"

definition js_toUpperCase :: "env \<Rightarrow> jsval \<Rightarrow> thrown + jsstring" where
  "js_toUpperCase e v =
     (case v of
        JStr s \<Rightarrow> Inr (toUpperCase e s)
      | _ \<Rightarrow> Inl (TypeError (typeErrorMessage e v (js ''toUpperCase''))))"

text \<open>A line break of a template literal and the indentation that follows it.\<close>

definition nl :: "nat \<Rightarrow> jsstring" where
  "nl n = 10 # replicate n 32"

definition no_options :: options where
  "no_options = \<lparr>opt_method = None, opt_body = None\<rparr>"

section \<open>Commands\<close>

text \<open>
  \<open>displayResult(command, result)\<close>: \<open>displayResult_html\<close> is the markup that is
  assigned to the result box, or the error thrown while it is built. Once
  \<open>result.status\<close> has been read, \<open>result\<close> is neither \<open>null\<close> nor \<open>undefined\<close>,
  and \<open>result.command.result\<close> is read only when \<open>result.command\<close> is truthy, so these
  reads are \<open>lookup\<close>.
\<close>

definition displayResult_html :: "env \<Rightarrow> jsstring \<Rightarrow> jsval \<Rightarrow> thrown + jsstring" where
  \<open>displayResult_html e command result =
     and_then (get_prop e result (js ''status'')) (\<lambda>status.
       let isSuccess = strict_eq_str status (js ''executed'');
           outputHtml =
             (if truthy (lookup result (js ''command''))
                 \<and> truthy (lookup (lookup result (js ''command'')) (js ''result''))
              then js ''<pre style="margin-top: 0.5rem; white-space: pre-wrap; color: var(--text-secondary);">''
                   @ escapeHtml (lookup (lookup result (js ''command'')) (js ''result''))
                   @ js ''</pre>''
              else [])
       in and_then (js_toUpperCase e status) (\<lambda>upper.
            Inr (nl 8 @ js ''<div class="result-command">''
                 @ nl 12 @ js ''<span class="prompt">$</span> '' @ escapeHtml (JStr command)
                 @ nl 8 @ js ''</div>''
                 @ nl 8 @ js ''<div class="result-output ''
                    @ (if isSuccess then js ''success'' else js ''error'') @ js ''">''
                 @ nl 12 @ js ''<div class="result-status '' @ to_string status @ js ''">[''
                    @ upper @ js '']</div>''
                 @ nl 12 @ js ''<div>''
                    @ escapeHtml (js_or (lookup result (js ''message'')) (JStr [])) @ js ''</div>''
                 @ nl 12 @ outputHtml
                 @ nl 8 @ js ''</div>''
                 @ nl 4)))\<close>

definition displayResult :: "env \<Rightarrow> jsstring \<Rightarrow> jsval \<Rightarrow> ui \<Rightarrow> thrown + ui" where
  "displayResult e command result u =
     and_then (displayResult_html e command result) (\<lambda>html. Inr (u\<lparr>command_result := html\<rparr>))"



definition recent_item :: "env \<Rightarrow> jsval \<Rightarrow> thrown + jsstring" where
  \<open>recent_item e cmd =
     and_then (get_prop e cmd (js ''command_text'')) (\<lambda>command_text.
       Inr (nl 12 @ js ''<div class="recent-item">''
            @ nl 16 @ js ''<span class="command">'' @ escapeHtml command_text @ js ''</span>''
            @ nl 16 @ js ''<span class="status-badge '' @ to_string (lookup cmd (js ''status''))
               @ js ''">'' @ to_string (lookup cmd (js ''status'')) @ js ''</span>''
            @ nl 12 @ js ''</div>''
            @ nl 8))\<close>

definition loadRecentCommands_try :: "env \<Rightarrow> thrown + jsval \<Rightarrow> thrown + jsstring" where
  \<open>loadRecentCommands_try e r =
     and_then r (\<lambda>data.
     and_then (get_prop e data (js ''commands'')) (\<lambda>commands.
     and_then (js_length e commands) (\<lambda>len.
       if len = JNum 0 then Inr (js ''<p class="empty-state">No commands submitted yet</p>'')
       else
         and_then (array_method e commands (js ''map'')) (\<lambda>xs.
         and_then (map_throw (recent_item e) xs) (\<lambda>items.
           Inr (js_join [] items))))))\<close>

definition loadRecentCommands :: "env \<Rightarrow> fetch_result \<Rightarrow> ui \<Rightarrow> ui" where
  \<open>loadRecentCommands e res u =
     (case apiRequest e (js ''/history?limit=5'') no_options res u of
        (r, u1) \<Rightarrow>
          (case loadRecentCommands_try e r of
             Inl error \<Rightarrow>
               u1\<lparr>recent_commands := js ''<p class="empty-state">Failed to load recent commands</p>''\<rparr>
           | Inr html \<Rightarrow> u1\<lparr>recent_commands := html\<rparr>))\<close>

section \<open>History\<close>

definition history_row :: "env \<Rightarrow> jsval \<Rightarrow> thrown + jsstring" where
  \<open>history_row e cmd =
     and_then (get_prop e cmd (js ''id'')) (\<lambda>id.
       Inr (nl 12 @ js ''<tr>''
            @ nl 16 @ js ''<td>#'' @ to_string id @ js ''</td>''
            @ nl 16 @ js ''<td class="mono truncate" title="''
               @ escapeHtml (lookup cmd (js ''command_text'')) @ js ''">''
               @ escapeHtml (lookup cmd (js ''command_text'')) @ js ''</td>''
            @ nl 16 @ js ''<td><span class="status-badge '' @ to_string (lookup cmd (js ''status''))
               @ js ''">'' @ to_string (lookup cmd (js ''status'')) @ js ''</span></td>''
            @ nl 16 @ js ''<td>''
               @ (if truthy (lookup cmd (js ''credits_deducted'')) then js ''-2'' else js ''0'')
               @ js ''</td>''
            @ nl 16 @ js ''<td>'' @ formatDate e (lookup cmd (js ''created_at'')) @ js ''</td>''
            @ nl 12 @ js ''</tr>''
            @ nl 8))\<close>

text \<open>
  The \<open>try\<close> block of \<open>loadHistory\<close> after the request: the table content, and whether
  \<open>loadRecentCommands()\<close> is called (not after the early \<open>return\<close>).
\<close>

definition loadHistory_try :: "env \<Rightarrow> jsstring \<Rightarrow> thrown + jsval \<Rightarrow> thrown + jsstring \<times> bool" where
  \<open>loadHistory_try e filter_value r =
     and_then r (\<lambda>data.
     and_then (get_prop e data (js ''commands'')) (\<lambda>commands0.
     and_then
       (if filter_value \<noteq> js ''all'' then
          and_then (array_method e commands0 (js ''filter'')) (\<lambda>xs.
          and_then (filter_throw
                      (\<lambda>cmd. and_then (get_prop e cmd (js ''status''))
                                (\<lambda>status. Inr (strict_eq_str status filter_value))) xs) (\<lambda>ys.
            Inr (JArr ys)))
        else Inr commands0) (\<lambda>commands.
     and_then (js_length e commands) (\<lambda>len.
       if len = JNum 0
       then Inr (js ''<tr><td colspan="5" class="empty-state">No commands found</td></tr>'', False)
       else
         and_then (array_method e commands (js ''map'')) (\<lambda>xs.
         and_then (map_throw (history_row e) xs) (\<lambda>rows.
           Inr (js_join [] rows, True)))))))\<close>

definition loadHistory :: "env \<Rightarrow> fetch_result \<Rightarrow> ui \<Rightarrow> ui" where
  \<open>loadHistory e res u =
     (let filter_value = (case history_filter u of
                      None \<Rightarrow> js ''all''
                    | Some v \<Rightarrow> if v \<noteq> [] then v else js ''all'');
          endpoint = (if strict_eq_str (get_prop_opt (currentUser u) (js ''role'')) (js ''admin'')
                      then js ''/commands/all'' else js ''/history'')
      in case apiRequest e (endpoint @ js ''?limit=100'') no_options res u of
           (r, u1) \<Rightarrow>
             (case loadHistory_try e filter_value r of
                Inl error \<Rightarrow>
                  u1\<lparr>history_table := js ''<tr><td colspan="5" class="empty-state">Error: ''
                                        @ message error @ js ''</td></tr>''\<rparr>
              | Inr (html, then_recent) \<Rightarrow>
                  (let u2 = u1\<lparr>history_table := html\<rparr>
                   in if then_recent then u2\<lparr>spawned := spawned u2 @ [LoadRecentCommands]\<rparr> else u2)))\<close>

section \<open>Rules\<close>



section \<open>Users\<close>


section \<open>Audit logs\<close>

definition audit_table_row :: "env \<Rightarrow> jsval \<Rightarrow> thrown + jsstring" where
  \<open>audit_table_row e log =
     and_then (get_prop e log (js ''created_at'')) (\<lambda>created_at.
       Inr (nl 12 @ js ''<tr>''
            @ nl 16 @ js ''<td>'' @ formatDate e created_at @ js ''</td>''
            @ nl 16 @ js ''<td>''
               @ escapeHtml (js_or (lookup log (js ''username'')) (JStr (js ''System'')))
               @ js ''</td>''
            @ nl 16 @ js ''<td><span class="action-badge">'' @ to_string (lookup log (js ''action''))
               @ js ''</span></td>''
            @ nl 16 @ js ''<td class="mono truncate" title="''
               @ escapeHtml (js_or (lookup log (js ''command_text'')) (JStr []))
               @ js ''">''
               @ escapeHtml (js_or (lookup log (js ''command_text'')) (JStr (js ''-'')))
               @ js ''</td>''
            @ nl 16 @ js ''<td class="truncate" title="''
               @ escapeHtml (js_or (lookup log (js ''details'')) (JStr []))
               @ js ''">''
               @ escapeHtml (js_or (lookup log (js ''details'')) (JStr (js ''-'')))
               @ js ''</td>''
            @ nl 12 @ js ''</tr>''
            @ nl 8))\<close>

definition loadAuditLogs_try :: "env \<Rightarrow> thrown + jsval \<Rightarrow> thrown + jsstring" where
  \<open>loadAuditLogs_try e r =
     and_then r (\<lambda>data.
     and_then (get_prop e data (js ''logs'')) (\<lambda>logs.
     and_then (js_length e logs) (\<lambda>len.
       if len = JNum 0
       then Inr (js ''<tr><td colspan="5" class="empty-state">No audit logs found</td></tr>'')
       else
         and_then (array_method e logs (js ''map'')) (\<lambda>xs.
         and_then (map_throw (audit_table_row e) xs) (\<lambda>rows.
           Inr (js_join [] rows))))))\<close>

definition loadAuditLogs :: "env \<Rightarrow> fetch_result \<Rightarrow> ui \<Rightarrow> ui" where
  \<open>loadAuditLogs e res u =
     (case apiRequest e (js ''/audit-logs?limit=100'') no_options res u of
        (r, u1) \<Rightarrow>
          (case loadAuditLogs_try e r of
             Inl error \<Rightarrow>
               u1\<lparr>audit_table := js ''<tr><td colspan="5" class="empty-state">Error: ''
                                   @ message error @ js ''</td></tr>''\<rparr>
           | Inr html \<Rightarrow> u1\<lparr>audit_table := html\<rparr>))\<close>

text \<open>The cells of one exported record, and \<open>String(cell).replace(/"/g, '""')\<close> in quotes.\<close>

definition export_row :: "env \<Rightarrow> jsval \<Rightarrow> thrown + jsval list" where
  "export_row e log =
     and_then (get_prop e log (js ''created_at'')) (\<lambda>created_at.
       Inr [created_at,
            js_or (lookup log (js ''username'')) (JStr (js ''System'')),
            lookup log (js ''action''),
            js_or (lookup log (js ''command_text'')) (JStr []),
            js_or (lookup log (js ''details'')) (JStr [])])"

fun replace_quotes :: "jsstring \<Rightarrow> jsstring" where
  "replace_quotes [] = []"
| "replace_quotes (c # cs) = (if c = 34 then [34, 34] else [c]) @ replace_quotes cs"

definition export_cell :: "jsval \<Rightarrow> jsstring" where
  "export_cell cell = [34] @ replace_quotes (to_string cell) @ [34]"

definition export_headers :: "jsstring list" where
  "export_headers = [js ''Timestamp'', js ''User'', js ''Action'', js ''Command'', js ''Details'']"

definition export_csv :: "jsval list list \<Rightarrow> jsstring" where
  "export_csv rows =
     js_join [10]
       (js_join (js '','') export_headers
        # map (\<lambda>row. js_join (js '','') (map export_cell row)) rows)"

definition exportAuditLogs_then :: "env \<Rightarrow> thrown + jsval \<Rightarrow> thrown + jsstring" where
  "exportAuditLogs_then e r =
     and_then r (\<lambda>data.
     and_then (get_prop e data (js ''logs'')) (\<lambda>logs.
     and_then (array_method e logs (js ''map'')) (\<lambda>xs.
     and_then (map_throw (export_row e) xs) (\<lambda>rows.
       Inr (export_csv rows)))))"

definition exportAuditLogs :: "env \<Rightarrow> fetch_result \<Rightarrow> ui \<Rightarrow> ui" where
  "exportAuditLogs e res u =
     (case apiRequest e (js ''/audit-logs?limit=1000'') no_options res u of
        (r, u1) \<Rightarrow>
          (case exportAuditLogs_then e r of
             Inl error \<Rightarrow> showToast (message error) (js ''error'') u1
           | Inr csv \<Rightarrow>
               showToast (js ''Audit logs exported'') (js ''success'')
                 (u1\<lparr>downloads := downloads u1 @
                        [(js ''audit-logs-'' @ take 10 (nowISOString e) @ js ''.csv'', csv)]\<rparr>)))"

section \<open>The rule engine of the specification\<close>

text \<open>
  Modelled from the spec: the rule engine is not in the repository, which holds the browser
  client only. A rule (section 3 of the specification) has an id, a priority, a pattern and
  an action; a verdict (section 4.1) is an action and the id of the matched rule, if any.
\<close>

datatype action = AUTO_ACCEPT | AUTO_REJECT

record rule =
  r_id :: nat
  r_priority :: int
  r_pattern :: jsstring
  r_action :: action

record verdict =
  v_action :: action
  matchedRuleId :: "nat option"

text \<open>
  Modelled from the spec: whether a rule applies to a command text (the matcher is not in
  the repository). The regular-expression search is a parameter: \<open>search p t\<close> is
  \<open>None\<close> when the pattern \<open>p\<close> does not compile, which section 4.1 treats as
  non-matching.
\<close>

definition rule_matches :: "(jsstring \<Rightarrow> jsstring \<Rightarrow> bool option) \<Rightarrow> jsstring \<Rightarrow> rule \<Rightarrow> bool" where
  "rule_matches search commandText r = (search (r_pattern r) commandText = Some True)"

text \<open>
  Modelled from the spec: \<open>Evaluate\<close> (the function is not in the repository). Following
  section 4.1: the rules are sorted by priority, then id, both ascending; the first rule
  whose pattern matches the command text gives the verdict; with no match the verdict is
  \<open>AUTO_REJECT\<close>.
\<close>

definition Evaluate :: "(jsstring \<Rightarrow> jsstring \<Rightarrow> bool option) \<Rightarrow> rule list \<Rightarrow> jsstring \<Rightarrow> verdict" where
  "Evaluate search rules commandText =
     (case find (rule_matches search commandText)
             (sort_key (\<lambda>r. (r_priority r, r_id r)) rules) of
        None \<Rightarrow> \<lparr>v_action = AUTO_REJECT, matchedRuleId = None\<rparr>
      | Some r \<Rightarrow> \<lparr>v_action = r_action r, matchedRuleId = Some (r_id r)\<rparr>)"

section \<open>Reading escaped text back\<close>

text \<open>
  What the HTML parser of the browser makes of a string that is assigned to
  \<open>innerHTML\<close>, as far as the output of \<open>escapeHtml\<close> needs it. The input stream is
  preprocessed: CR LF and a lone CR become LF. In the data state of the tokenizer a
  character reference is decoded (of the named references only the four that the
  serialisation emits are modelled), the NUL character is dropped, and \<open><\<close> begins
  markup. The result is \<open>None\<close> when the string is not plain text within this model.
\<close>

fun normalize_newlines :: "jsstring \<Rightarrow> jsstring" where
  "normalize_newlines [] = []"
| "normalize_newlines [c] = [if c = 13 then 10 else c]"
| "normalize_newlines (c # d # cs) =
     (if c = 13 \<and> d = 10 then 10 # normalize_newlines cs
      else if c = 13 then 10 # normalize_newlines (d # cs)
      else c # normalize_newlines (d # cs))"

fun data_state :: "jsstring \<Rightarrow> jsstring option" where
  "data_state [] = Some []"
| "data_state (c # cs) =
     (if c = 60 then None
      else if c = 38 then
        (if starts_with (js ''amp;'') cs then map_option ((#) 38) (data_state (drop 4 cs))
         else if starts_with (js ''nbsp;'') cs then map_option ((#) 160) (data_state (drop 5 cs))
         else if starts_with (js ''lt;'') cs then map_option ((#) 60) (data_state (drop 3 cs))
         else if starts_with (js ''gt;'') cs then map_option ((#) 62) (data_state (drop 3 cs))
         else None)
      else if c = 0 then data_state cs
      else map_option ((#) c) (data_state cs))"

definition parse_text :: "jsstring \<Rightarrow> jsstring option" where
  "parse_text html = data_state (normalize_newlines html)"

section \<open>The exported table, in the words of the specification\<close>

text \<open>
  A cell in double quotes with the embedded double quotes doubled; strings separated by a
  delimiter; the five cells of a record (timestamp, actor, action, related command,
  details), the actor being the user name, or \<open>System\<close> when there is none; and the table:
  the header row, then one row per record, in order.
\<close>

definition quoted :: "jsstring \<Rightarrow> jsstring" where
  "quoted s = [34] @ concat (map (\<lambda>c. if c = 34 then [34, 34] else [c]) s) @ [34]"

fun delimited :: "nat \<Rightarrow> jsstring list \<Rightarrow> jsstring" where
  "delimited d [] = []"
| "delimited d [x] = x"
| "delimited d (x # y # ys) = x @ [d] @ delimited d (y # ys)"

definition audit_record_cells :: "jsval \<Rightarrow> jsstring list" where
  "audit_record_cells log =
     [to_string (lookup log (js ''created_at'')),
      (if truthy (lookup log (js ''username'')) then to_string (lookup log (js ''username''))
       else js ''System''),
      to_string (lookup log (js ''action'')),
      (if truthy (lookup log (js ''command_text''))
       then to_string (lookup log (js ''command_text'')) else []),
      (if truthy (lookup log (js ''details'')) then to_string (lookup log (js ''details''))
       else [])]"

definition audit_table_text :: "jsval list \<Rightarrow> jsstring" where
  "audit_table_text logs =
     delimited 10
       (delimited 44 [js ''Timestamp'', js ''User'', js ''Action'', js ''Command'', js ''Details'']
        # map (\<lambda>log. delimited 44 (map quoted (audit_record_cells log))) logs)"

text \<open>
  A reader of comma-delimited text with double-quoted fields (after RFC 4180, rows
  ending at a line feed), to read the exported table back: the mode, the field and the
  row being read, the rows read so far, and the rest of the text. A doubled quote inside a
  quoted field is one quote; a quote inside a bare field, or text after a closing quote,
  is an error.
\<close>

datatype csv_mode = FieldStart | Bare | Quoted | QuoteSeen

fun csv_read :: "csv_mode \<Rightarrow> jsstring \<Rightarrow> jsstring list \<Rightarrow> jsstring list list \<Rightarrow> jsstring
                 \<Rightarrow> jsstring list list option" where
  "csv_read m field row rows [] =
     (if m = Quoted then None else Some (rows @ [row @ [field]]))"
| "csv_read FieldStart field row rows (c # cs) =
     (if c = 34 then csv_read Quoted [] row rows cs
      else if c = 44 then csv_read FieldStart [] (row @ [[]]) rows cs
      else if c = 10 then csv_read FieldStart [] [] (rows @ [row @ [[]]]) cs
      else csv_read Bare [c] row rows cs)"
| "csv_read Bare field row rows (c # cs) =
     (if c = 34 then None
      else if c = 44 then csv_read FieldStart [] (row @ [field]) rows cs
      else if c = 10 then csv_read FieldStart [] [] (rows @ [row @ [field]]) cs
      else csv_read Bare (field @ [c]) row rows cs)"
| "csv_read Quoted field row rows (c # cs) =
     (if c = 34 then csv_read QuoteSeen field row rows cs
      else csv_read Quoted (field @ [c]) row rows cs)"
| "csv_read QuoteSeen field row rows (c # cs) =
     (if c = 34 then csv_read Quoted (field @ [34]) row rows cs
      else if c = 44 then csv_read FieldStart [] (row @ [field]) rows cs
      else if c = 10 then csv_read FieldStart [] [] (rows @ [row @ [field]]) cs
      else None)"

definition read_table :: "jsstring \<Rightarrow> jsstring list list option" where
  "read_table s = csv_read FieldStart [] [] [] s"

section \<open>Sample inputs\<close>

definition sample_submission :: jsval where
  "sample_submission =
     JObj [(js ''id'', JNum 7), (js ''command_text'', JStr (js ''ls'')),
           (js ''status'', JStr (js ''executed'')), (js ''credits_deducted'', JBool True),
           (js ''created_at'', JStr (js ''2025-01-01T00:00:00''))]"

text \<open>A search that treats the pattern as a literal substring, and two rules.\<close>

definition literal_search :: "jsstring \<Rightarrow> jsstring \<Rightarrow> bool option" where
  "literal_search p t = Some (js_includes t p)"

definition sample_rules :: "rule list" where
  "sample_rules =
     [\<lparr>r_id = 2, r_priority = 2, r_pattern = js ''ls'', r_action = AUTO_ACCEPT\<rparr>,
      \<lparr>r_id = 1, r_priority = 1, r_pattern = js ''mkfs'', r_action = AUTO_REJECT\<rparr>]"

text \<open>
  An environment (an ASCII \<open>toUpperCase\<close>, a locale that prints the date string as it is),
  a page with nothing entered, and a logged-in member.
\<close>

definition sample_env :: env where
  "sample_env =
     \<lparr>toLocaleString = to_string,
      toUpperCase = map (\<lambda>c. if 97 \<le> c \<and> c \<le> 122 then c - 32 else c),
      typeErrorMessage = (\<lambda>v k. js ''Cannot read properties of '' @ to_string v),
      nowISOString = js ''2025-01-01T00:00:00.000Z''\<rparr>"

definition blank_ui :: ui where
  "blank_ui =
     \<lparr>currentUser = JNull, apiKey = [], fetched = [], toasts = [], spawned = [],
      downloads = [], command_input = [], submit_btn_html = js ''Execute'',
      submit_btn_disabled = False, credit_display = [], command_result = [],
      recent_commands = [], history_filter = Some (js ''all''), history_table = [],
      rule_pattern = [], rule_action = js ''AUTO_ACCEPT'', rule_priority = js ''10'',
      new_username = [], new_user_role = js ''member'', new_user_credits = js ''100'',
      new_api_key = [], new_api_key_display_hidden = True, audit_table = [],
      unhandled = []\<rparr>"







definition sample_logs :: "jsval list" where
  \<open>sample_logs =
     [JObj [(js ''created_at'', JStr (js ''2025-01-01'')), (js ''username'', JStr (js ''alice'')),
            (js ''action'', JStr (js ''COMMAND_EXECUTED'')),
            (js ''command_text'', JStr (js ''echo "hi"'')), (js ''details'', JStr (js ''ok''))],
      JObj [(js ''created_at'', JStr (js ''2025-01-02'')), (js ''username'', JNull),
            (js ''action'', JStr (js ''RULE_CREATED''))]]\<close>



section \<open>Properties\<close>

subsection \<open>Requests\<close>

lemma apiRequest_result_ok:
  "response_ok status \<Longrightarrow> apiRequest_result e (Response status (Inr data)) = Inr data"
  by (simp add: apiRequest_result_def apiRequest_try_def)

lemma response_ok_200: "response_ok 200"
  by (simp add: response_ok_def)

subsection \<open>The credit column of the history table\<close>

lemma history_row_sample:
  \<open>history_row e sample_submission =
     Inr (nl 12 @ js ''<tr>''
          @ nl 16 @ js ''<td>#7</td>''
          @ nl 16 @ js ''<td class="mono truncate" title="ls">ls</td>''
          @ nl 16 @ js ''<td><span class="status-badge executed">executed</span></td>''
          @ nl 16 @ js ''<td>-2</td>''
          @ nl 16 @ js ''<td>'' @ toLocaleString e (JStr (js ''2025-01-01T00:00:00'')) @ js ''</td>''
          @ nl 12 @ js ''</tr>''
          @ nl 8)\<close>
  by (simp add: history_row_def sample_submission_def and_then_def get_prop_def escapeHtml_def
      dom_text_def formatDate_def number_to_string_def js_def)

text \<open>
  C1. The history table should show a deduction of one credit for a credited submission.
  For the history response that holds the one credited submission \<open>sample_submission\<close>
  (status \<open>executed\<close>, \<open>credits_deducted\<close> true) and no status filter, the table that
  \<open>loadHistory\<close> renders has \<open>-2\<close> in the credit cell.
\<close>

theorem loadHistory_credited_row_shows_minus_2:
  \<open>history_table
     (loadHistory e (Response 200 (Inr (JObj [(js ''commands'', JArr [sample_submission])])))
        (u\<lparr>history_filter := None\<rparr>)) =
     nl 12 @ js ''<tr>''
     @ nl 16 @ js ''<td>#7</td>''
     @ nl 16 @ js ''<td class="mono truncate" title="ls">ls</td>''
     @ nl 16 @ js ''<td><span class="status-badge executed">executed</span></td>''
     @ nl 16 @ js ''<td>-2</td>''
     @ nl 16 @ js ''<td>'' @ toLocaleString e (JStr (js ''2025-01-01T00:00:00'')) @ js ''</td>''
     @ nl 12 @ js ''</tr>''
     @ nl 8\<close>
proof -
  have body: "loadHistory_try e (js ''all'')
                (Inr (JObj [(js ''commands'', JArr [sample_submission])])) = Inr (the_row, True)"
    if "history_row e sample_submission = Inr the_row" for the_row
    using that
    by (simp add: loadHistory_try_def and_then_def get_prop_def js_length_def array_method_def)
  show ?thesis
    using body [OF history_row_sample]
    by (simp add: loadHistory_def Let_def apiRequest_def apiRequest_result_ok [OF response_ok_200])
qed

subsection \<open>The rule engine\<close>

lemma find_no_match: "\<forall>x \<in> set xs. \<not> P x \<Longrightarrow> find P xs = None"
  by (induction xs) auto

text \<open>
  C2. For every command text that matches no rule of the rule set, \<open>Evaluate\<close> returns
  the verdict \<open>AUTO_REJECT\<close> (with no matched rule), so the command is not accepted.
\<close>

theorem Evaluate_fail_closed:
  assumes "\<forall>r \<in> set rules. \<not> rule_matches search commandText r"
  shows "Evaluate search rules commandText = \<lparr>v_action = AUTO_REJECT, matchedRuleId = None\<rparr>
         \<and> v_action (Evaluate search rules commandText) \<noteq> AUTO_ACCEPT"
proof -
  have "find (rule_matches search commandText)
          (sort_key (\<lambda>r. (r_priority r, r_id r)) rules) = None"
    using assms by (intro find_no_match) simp
  then show ?thesis by (simp add: Evaluate_def)
qed

theorem Evaluate_fail_closed_witness:
  "list_all (\<lambda>r. \<not> rule_matches literal_search (js ''rm -rf /'') r) sample_rules
   \<and> Evaluate literal_search sample_rules (js ''rm -rf /'')
       = \<lparr>v_action = AUTO_REJECT, matchedRuleId = None\<rparr>
   \<and> v_action (Evaluate literal_search sample_rules (js ''rm -rf /'')) \<noteq> AUTO_ACCEPT"
proof -
  have h: "\<forall>r \<in> set sample_rules. \<not> rule_matches literal_search (js ''rm -rf /'') r"
    by (simp add: sample_rules_def rule_matches_def literal_search_def js_def)
  show ?thesis using h Evaluate_fail_closed [OF h] by (simp add: list_all_iff)
qed

text \<open>The same rules do accept a matching command, and the lower priority number wins.\<close>

lemma Evaluate_sample_accept:
  "Evaluate literal_search sample_rules (js ''ls -la'')
     = \<lparr>v_action = AUTO_ACCEPT, matchedRuleId = Some 2\<rparr>"
  by (simp add: Evaluate_def sample_rules_def rule_matches_def literal_search_def js_def)

lemma Evaluate_sample_priority:
  "Evaluate literal_search sample_rules (js ''ls mkfs'')
     = \<lparr>v_action = AUTO_REJECT, matchedRuleId = Some 1\<rparr>"
  by (simp add: Evaluate_def sample_rules_def rule_matches_def literal_search_def js_def)

subsection \<open>Defaults of the rule and user forms\<close>

lemma js_parseInt_examples:
  "js_parseInt (js ''42'') = Some 42"
  "js_parseInt (js ''  -7px'') = Some (- 7)"
  "js_parseInt (js ''0x1f'') = Some 31"
  "js_parseInt (js ''abc'') = None"
  "js_parseInt [] = None"
  "js_parseInt (js ''-0'') = Some 0"
  "js_parseInt (js ''0.5'') = Some 0"
  "js_parseInt (js ''0x'') = None"
  "js_parseInt (js ''+12'') = Some 12"
  by (simp_all add: js_parseInt_def js_def is_js_whitespace_def is_radix_digit_def
      digit_value_def Let_def)








subsection \<open>Escaping\<close>

lemma html_escape_no_angle: "60 \<notin> set (html_escape s) \<and> 62 \<notin> set (html_escape s)"
  by (induction s) (auto simp: js_def)













lemma escapeHtml_str: "escapeHtml (JStr s) = html_escape s"
  by (cases s) (simp_all add: escapeHtml_def dom_text_def)

lemma escapeHtml_no_angle: "60 \<notin> set (escapeHtml v) \<and> 62 \<notin> set (escapeHtml v)"
  by (simp add: escapeHtml_def html_escape_no_angle)


text \<open>
  Whatever the command, the message and the mocked result are, they add no \<open><\<close> to the
  result box: its count of \<open><\<close> is that of the fixed template and of the status.
\<close>

lemma count_list_app: "count_list (xs @ ys) a = count_list xs a + count_list ys a"
  by (induction xs) auto

lemma displayResult_markup:
  assumes "get_prop e result (js ''status'') = Inr (JStr st)"
  shows "\<exists>u'. displayResult e command result u = Inr u' \<and>
     count_list (command_result u') 60 =
       10 + count_list st 60 + count_list (toUpperCase e st) 60
       + (if truthy (lookup result (js ''command''))
             \<and> truthy (lookup (lookup result (js ''command'')) (js ''result'')) then 2 else 0)"
  using assms
  by (simp add: displayResult_def displayResult_html_def and_then_def Let_def
      js_toUpperCase_def strict_eq_str_def count_list_app escapeHtml_no_angle nl_def js_def)


text \<open>The NUL character is lost in the same way.\<close>

lemma escapeHtml_roundtrip_drops_NUL:
  "parse_text (escapeHtml (JStr [97, 0, 98])) = Some [97, 98]"
  by (simp add: escapeHtml_str parse_text_def)



subsection \<open>Submitting a command\<close>















subsection \<open>The credit display\<close>



subsection \<open>The audit-log export\<close>










subsection \<open>List requests\<close>

lemma get_prop_opt_lookup: "get_prop_opt v k = lookup v k"
  by (cases v) (simp_all add: get_prop_opt_def)

lemma js_append: "js a @ js b = js (a @ b)"
  by (simp add: js_def)

lemma url_request_of: "url (request_of u endpoint opts) = API_BASE_URL @ endpoint"
  by (simp add: request_of_def)

lemma fetched_loadHistory:
  "fetched (loadHistory e res u) =
     fetched u @
     [request_of u
        ((if lookup (currentUser u) (js ''role'') = JStr (js ''admin'')
          then js ''/commands/all'' else js ''/history'') @ js ''?limit=100'') no_options]"
  by (simp add: loadHistory_def apiRequest_def Let_def get_prop_opt_lookup strict_eq_str_def
      split: sum.splits prod.splits)

lemma fetched_loadRecentCommands:
  "fetched (loadRecentCommands e res u) =
     fetched u @ [request_of u (js ''/history?limit=5'') no_options]"
  by (simp add: loadRecentCommands_def apiRequest_def split: sum.splits)

lemma fetched_loadAuditLogs:
  "fetched (loadAuditLogs e res u) =
     fetched u @ [request_of u (js ''/audit-logs?limit=100'') no_options]"
  by (simp add: loadAuditLogs_def apiRequest_def split: sum.splits)

lemma fetched_exportAuditLogs:
  "fetched (exportAuditLogs e res u) =
     fetched u @ [request_of u (js ''/audit-logs?limit=1000'') no_options]"
  by (simp add: exportAuditLogs_def apiRequest_def showToast_def split: sum.splits)

lemma urls_loadHistory:
  "map url (fetched (loadHistory e res u)) =
     map url (fetched u) @
     [if lookup (currentUser u) (js ''role'') = JStr (js ''admin'')
      then js ''http://localhost:8000/commands/all?limit=100''
      else js ''http://localhost:8000/history?limit=100'']"
  by (simp add: fetched_loadHistory url_request_of API_BASE_URL_def js_append)

text \<open>
  C4, as stated, has every list request of the client ask for the default sizes, the
  audit-log request for 100 records. The audit-log request of the export asks for 1000.
\<close>

theorem exportAuditLogs_asks_for_1000:
  "map url (fetched (exportAuditLogs sample_env
      (Response 200 (Inr (JObj [(js ''logs'', JArr sample_logs)]))) blank_ui))
     = [js ''http://localhost:8000/audit-logs?limit=1000'']
   \<and> js ''http://localhost:8000/audit-logs?limit=1000''
       \<noteq> js ''http://localhost:8000/audit-logs?limit=100''"
  by (simp add: fetched_exportAuditLogs url_request_of API_BASE_URL_def js_append blank_ui_def)
     (simp add: js_def)

text \<open>
  C4, amended. Whatever the state and the response, each of these functions passes exactly
  one request to \<open>fetch\<close>: \<open>loadHistory\<close> asks for the command history with
  \<open>limit=100\<close>, \<open>loadAuditLogs\<close> for the audit log with \<open>limit=100\<close>,
  \<open>loadRecentCommands\<close> for the history with \<open>limit=5\<close>, and \<open>exportAuditLogs\<close> for
  the audit log with \<open>limit=1000\<close>.
\<close>

theorem list_request_limits:
  "map url (fetched (loadHistory e res u)) =
     map url (fetched u) @
     [if lookup (currentUser u) (js ''role'') = JStr (js ''admin'')
      then js ''http://localhost:8000/commands/all?limit=100''
      else js ''http://localhost:8000/history?limit=100'']
   \<and> map url (fetched (loadAuditLogs e res u)) =
       map url (fetched u) @ [js ''http://localhost:8000/audit-logs?limit=100'']
   \<and> map url (fetched (loadRecentCommands e res u)) =
       map url (fetched u) @ [js ''http://localhost:8000/history?limit=5'']
   \<and> map url (fetched (exportAuditLogs e res u)) =
       map url (fetched u) @ [js ''http://localhost:8000/audit-logs?limit=1000'']"
  by (simp add: urls_loadHistory fetched_loadAuditLogs fetched_loadRecentCommands
      fetched_exportAuditLogs url_request_of API_BASE_URL_def js_append)

subsection \<open>The history view\<close>







subsection \<open>Reading the exported table back\<close>

text \<open>
  The quoting is sound: a reader of comma-delimited text recovers from the exported table
  the header cells and, for every record, its five cells as they were before quoting,
  whatever quotes, commas and line feeds they contain.
\<close>

lemma csv_read_quoted_body:
  "csv_read Quoted f row rows (concat (map (\<lambda>c. if c = 34 then [34, 34] else [c]) s) @ 34 # rest)
     = csv_read QuoteSeen (f @ s) row rows rest"
  by (induction s arbitrary: f) simp_all

lemma csv_read_quoted:
  "csv_read FieldStart f row rows (quoted s @ rest) = csv_read QuoteSeen s row rows rest"
  using csv_read_quoted_body [of "[]" row rows s rest]
  by (simp add: quoted_def)

lemma csv_read_cells:
  "cells \<noteq> [] \<Longrightarrow>
     csv_read FieldStart f row rows (delimited 44 (map quoted cells) @ rest)
       = csv_read QuoteSeen (last cells) (row @ butlast cells) rows rest"
proof (induction cells arbitrary: f row)
  case Nil
  then show ?case by simp
next
  case (Cons x xs)
  show ?case
  proof (cases xs)
    case Nil
    then show ?thesis by (simp add: csv_read_quoted)
  next
    case (Cons y ys)
    then have "csv_read FieldStart f row rows (delimited 44 (map quoted (x # xs)) @ rest)
        = csv_read QuoteSeen x row rows (44 # delimited 44 (map quoted xs) @ rest)"
      by (simp add: csv_read_quoted)
    also have "\<dots> = csv_read FieldStart [] (row @ [x]) rows (delimited 44 (map quoted xs) @ rest)"
      by simp
    also have "\<dots> = csv_read QuoteSeen (last xs) ((row @ [x]) @ butlast xs) rows rest"
      using Cons by (intro Cons.IH) simp
    finally show ?thesis using Cons by simp
  qed
qed

lemma delimited_lines: "delimited 10 (h # ls) = h @ concat (map (\<lambda>l. 10 # l) ls)"
  by (induction ls arbitrary: h) simp_all

lemma csv_read_records:
  assumes "m = Bare \<and> 34 \<notin> set f \<or> m = QuoteSeen"
    and "\<forall>cells \<in> set records. cells \<noteq> []"
  shows "csv_read m f row rows (concat (map (\<lambda>cells. 10 # delimited 44 (map quoted cells)) records))
         = Some (rows @ [row @ [f]] @ records)"
  using assms
proof (induction records arbitrary: m f row rows)
  case Nil
  then show ?case by auto
next
  case (Cons cells records)
  have "csv_read m f row rows
          (concat (map (\<lambda>cells. 10 # delimited 44 (map quoted cells)) (cells # records)))
        = csv_read FieldStart [] [] (rows @ [row @ [f]])
            (delimited 44 (map quoted cells)
             @ concat (map (\<lambda>cells. 10 # delimited 44 (map quoted cells)) records))"
    using Cons.prems(1) by auto
  also have "\<dots> = csv_read QuoteSeen (last cells) ([] @ butlast cells) (rows @ [row @ [f]])
            (concat (map (\<lambda>cells. 10 # delimited 44 (map quoted cells)) records))"
    using Cons.prems(2) by (intro csv_read_cells) simp
  also have "\<dots> = Some ((rows @ [row @ [f]]) @ [([] @ butlast cells) @ [last cells]] @ records)"
    using Cons.prems(2) by (intro Cons.IH) simp_all
  finally show ?case
    using Cons.prems(2) by simp
qed

lemma csv_read_header:
  "csv_read FieldStart [] [] [] (js ''Timestamp,User,Action,Command,Details'' @ rest)
     = csv_read Bare (js ''Details'') [js ''Timestamp'', js ''User'', js ''Action'', js ''Command'']
         [] rest"
  by (simp add: js_def)

lemma audit_table_text_reads_back:
  "read_table (audit_table_text logs) =
     Some ([js ''Timestamp'', js ''User'', js ''Action'', js ''Command'', js ''Details'']
           # map audit_record_cells logs)"
proof -
  have shape: "audit_table_text logs =
      js ''Timestamp,User,Action,Command,Details''
      @ concat (map (\<lambda>cells. 10 # delimited 44 (map quoted cells)) (map audit_record_cells logs))"
    by (simp add: audit_table_text_def delimited_lines comp_def) (simp add: js_def)
  have cells: "\<forall>cells \<in> set (map audit_record_cells logs). cells \<noteq> []"
    by (simp add: audit_record_cells_def)
  have "34 \<notin> set (js ''Details'')"
    by (simp add: js_def)
  then show ?thesis
    unfolding read_table_def shape csv_read_header
    using cells by (subst csv_read_records) simp_all
qed

lemma read_table_sample:
  \<open>read_table
     (js ''Timestamp,User,Action,Command,Details'' @ [10]
      @ js ''"2025-01-01","alice","COMMAND_EXECUTED","echo ""hi""","ok"'' @ [10]
      @ js ''"2025-01-02","System","RULE_CREATED","",""'')
   = Some [[js ''Timestamp'', js ''User'', js ''Action'', js ''Command'', js ''Details''],
           [js ''2025-01-01'', js ''alice'', js ''COMMAND_EXECUTED'', js ''echo "hi"'', js ''ok''],
           [js ''2025-01-02'', js ''System'', js ''RULE_CREATED'', [], []]]\<close>
  by (simp add: read_table_def js_def)

end
